theory Spec2Isabelle
  imports Complex_Main
begin

section \<open>Python values used by \<open>main.py\<close>\<close>

text \<open>
  A Python \<open>str\<close> is modelled by \<open>string\<close>; one \<open>char\<close> stands for one code point, so
  that \<open>length\<close> is Python's \<open>len\<close>. No definition below looks inside a character
  except to compare it with an ASCII literal.

  What \<open>r.json()\<close> returns is a tree of \<open>None\<close>, booleans, numbers, strings, lists and
  dicts. A dict is an association list read with \<open>map_of\<close>.
\<close>

datatype json =
    JNull
  | JBool bool
  | JInt int
  | JFloat real
  | JStr string
  | JList "json list"
  | JDict "(string \<times> json) list"

text \<open>Truth value of an object, as \<open>if x:\<close> and \<open>x or y\<close> test it.\<close>

fun truthy :: "json \<Rightarrow> bool" where
  "truthy JNull = False"
| "truthy (JBool b) = b"
| "truthy (JInt i) = (i \<noteq> 0)"
| "truthy (JFloat x) = (x \<noteq> 0)"
| "truthy (JStr s) = (s \<noteq> [])"
| "truthy (JList xs) = (xs \<noteq> [])"
| "truthy (JDict kvs) = (kvs \<noteq> [])"

definition py_or :: "json \<Rightarrow> json \<Rightarrow> json" where
  "py_or a b = (if truthy a then a else b)"

text \<open>\<open>d.get(k)\<close> on a dict: the value, or \<open>None\<close> when the key is absent.\<close>

definition dict_get :: "(string \<times> json) list \<Rightarrow> string \<Rightarrow> json" where
  "dict_get d k = (case map_of d k of Some v \<Rightarrow> v | None \<Rightarrow> JNull)"

text \<open>\<open>xs[:n]\<close>: a negative bound counts from the end.\<close>

definition slice_to :: "'a list \<Rightarrow> int \<Rightarrow> 'a list" where
  "slice_to xs n = (if n < 0 then take (length xs - nat (- n)) xs else take (nat n) xs)"

text \<open>\<open>s.replace(" ", "+")\<close>: every space character becomes a plus sign.\<close>

definition replace_space :: "string \<Rightarrow> string" where
  "replace_space s = map (\<lambda>c. if c = CHR '' '' then CHR ''+'' else c) s"

text \<open>\<open>c.isspace()\<close> on the ASCII range: space, tab, newline, vertical tab, form feed,
  carriage return and the four separators \<open>0x1c\<close> to \<open>0x1f\<close>.\<close>

definition isspace :: "char \<Rightarrow> bool" where
  "isspace c = (c \<in> set [CHR 0x20, CHR 0x09, CHR 0x0A, CHR 0x0B, CHR 0x0C, CHR 0x0D,
                          CHR 0x1C, CHR 0x1D, CHR 0x1E, CHR 0x1F])"

text \<open>\<open>str(n)\<close> for an integer: decimal digits, a minus sign for a negative number.\<close>

definition digit_char :: "nat \<Rightarrow> char" where
  "digit_char d = ''0123456789'' ! d"

fun str_nat :: "nat \<Rightarrow> string" where
  "str_nat n = (if n < 10 then [digit_char n]
                else str_nat (n div 10) @ [digit_char (n mod 10)])"

definition str_int :: "int \<Rightarrow> string" where
  "str_int i = (if i < 0 then CHR ''-'' # str_nat (nat (- i)) else str_nat (nat i))"

text \<open>Reading a decimal string back; used to show that \<open>str\<close> is injective.\<close>

definition digit_val :: "char \<Rightarrow> nat" where
  "digit_val c = length (takeWhile (\<lambda>d. d \<noteq> c) ''0123456789'')"

definition decimal_val :: "string \<Rightarrow> nat" where
  "decimal_val s = foldl (\<lambda>a c. 10 * a + digit_val c) 0 s"


section \<open>Request and response models\<close>

text \<open>
  The request records hold the fields of a request body before the constraints of
  \<open>Field(...)\<close> are checked; the \<open>HttpUrl\<close> references are kept as strings.
\<close>

record ImageGenRequest =
  prompt :: string
  count :: int
  style :: "string option"
  references :: "string list option"

record ImageGenResponse =
  job_id :: string
  images :: "string list"
  provider :: string

record VideoGenRequest =
  script :: string
  aspect_ratio :: string
  duration_seconds :: int
  voice :: "string option"
  tone :: "string option"
  references :: "string list option"

record VideoGenResponse =
  job_id :: string
  video_url :: string
  provider :: string

text \<open>
  \<open>RequestValidationError\<close>: the body breaks a constraint of the request model, and the
  route answers with a client error without calling the handler.
  \<open>ValidationError\<close>: constructing the response model inside the handler is refused by
  pydantic; the handler does not catch it.
\<close>

datatype error = RequestValidationError | ValidationError

text \<open>\<open>prompt: min_length=3\<close>, \<open>count: ge=1, le=50\<close>.\<close>

definition ImageGenRequest_valid :: "ImageGenRequest \<Rightarrow> bool" where
  "ImageGenRequest_valid req =
     (3 \<le> length (prompt req) \<and> 1 \<le> count req \<and> count req \<le> 50)"

text \<open>\<open>script: min_length=3\<close>, \<open>duration_seconds: ge=4, le=30\<close>.\<close>

definition VideoGenRequest_valid :: "VideoGenRequest \<Rightarrow> bool" where
  "VideoGenRequest_valid req =
     (3 \<le> length (script req) \<and> 4 \<le> duration_seconds req \<and> duration_seconds req \<le> 30)"

text \<open>
  A field declared \<open>str\<close> accepts a string as it is and refuses \<open>None\<close>, a list and a dict.
  What it makes of a number or a boolean depends on the installed pydantic (version 1
  converts it with \<open>str\<close>, version 2 refuses it); \<open>main.py\<close> does not pin a version, so
  that part is the parameter \<open>num\<close>.
\<close>

fun str_field :: "(json \<Rightarrow> string option) \<Rightarrow> json \<Rightarrow> string option" where
  "str_field num (JStr s) = Some s"
| "str_field num (JBool b) = num (JBool b)"
| "str_field num (JInt i) = num (JInt i)"
| "str_field num (JFloat x) = num (JFloat x)"
| "str_field num JNull = None"
| "str_field num (JList xs) = None"
| "str_field num (JDict kvs) = None"

text \<open>\<open>ImageGenResponse(job_id=..., images=..., provider=...)\<close> with \<open>images: List[str]\<close>.\<close>

definition new_ImageGenResponse ::
  "(json \<Rightarrow> string option) \<Rightarrow> string \<Rightarrow> json list \<Rightarrow> string \<Rightarrow> error + ImageGenResponse" where
  "new_ImageGenResponse num jid imgs prov =
     (case those (map (str_field num) imgs) of
        None \<Rightarrow> Inl ValidationError
      | Some urls \<Rightarrow>
          Inr \<lparr>ImageGenResponse.job_id = jid, images = urls, ImageGenResponse.provider = prov\<rparr>)"

text \<open>\<open>VideoGenResponse(job_id=..., video_url=..., provider=...)\<close> with \<open>video_url: str\<close>.\<close>

definition new_VideoGenResponse ::
  "(json \<Rightarrow> string option) \<Rightarrow> string \<Rightarrow> json \<Rightarrow> string \<Rightarrow> error + VideoGenResponse" where
  "new_VideoGenResponse num jid v prov =
     (case str_field num v of
        None \<Rightarrow> Inl ValidationError
      | Some u \<Rightarrow>
          Inr \<lparr>VideoGenResponse.job_id = jid, video_url = u, VideoGenResponse.provider = prov\<rparr>)"


section \<open>The process environment and the provider\<close>

text \<open>
  One outbound call \<open>requests.post(url, json=payload, headers=headers, timeout=t)\<close> and
  what comes back: the call raises (no connection, timeout, a payload that cannot be
  serialised), or it returns a response with a status code whose \<open>json()\<close> either yields
  a value or raises (\<open>None\<close>).
\<close>

record http_call =
  call_url :: string
  call_json :: json
  call_headers :: "(string \<times> string) list"
  call_timeout :: nat

datatype reply = Raises | Response int "json option"

text \<open>What a handler did to the outside: the calls it posted and the bodies it parsed.\<close>

datatype event = Posted http_call | ParsedBody

text \<open>
  \<open>KEYAI_API_KEY\<close> and \<open>KEYAI_BASE\<close> are read from the environment when the module is
  loaded. \<open>post\<close> is the provider as \<open>requests.post\<close> sees it, \<open>hash\<close> the builtin hash
  of a string (salted per process) and \<open>num_str\<close> pydantic's treatment of a number in a
  \<open>str\<close> field.
\<close>

record env =
  KEYAI_API_KEY :: "string option"
  KEYAI_BASE :: string
  post :: "http_call \<Rightarrow> reply"
  hash :: "string \<Rightarrow> int"
  num_str :: "json \<Rightarrow> string option"

text \<open>\<open>if KEYAI_API_KEY:\<close> holds for a key that is set and not the empty string.\<close>

definition has_key :: "env \<Rightarrow> bool" where
  "has_key e = (case KEYAI_API_KEY e of None \<Rightarrow> False | Some k \<Rightarrow> k \<noteq> [])"

definition auth_headers :: "env \<Rightarrow> (string \<times> string) list" where
  "auth_headers e =
     [(''Authorization'', ''Bearer '' @ (case KEYAI_API_KEY e of None \<Rightarrow> ''None'' | Some k \<Rightarrow> k)),
      (''Content-Type'', ''application/json'')]"

definition json_opt_str :: "string option \<Rightarrow> json" where
  "json_opt_str s = (case s of None \<Rightarrow> JNull | Some x \<Rightarrow> JStr x)"

text \<open>\<open>req.references or []\<close>.\<close>

definition json_references :: "string list option \<Rightarrow> json" where
  "json_references r = (case r of None \<Rightarrow> JList [] | Some us \<Rightarrow> JList (map JStr us))"


section \<open>Image generation\<close>

text \<open>
  The element of the list comprehension at lines 125 and 127:
  \<open>img.get("url")\<close> for an \<open>img\<close> with \<open>isinstance(img, dict) and img.get("url")\<close>; any
  other element is dropped.
\<close>

fun url_of :: "json \<Rightarrow> json option" where
  "url_of (JDict d) =
     (if truthy (dict_get d ''url'') then Some (dict_get d ''url'') else None)"
| "url_of other = None"

text \<open>
  Lines 121 to 127: \<open>urls\<close> for the parsed body \<open>data\<close>. The \<open>"data"\<close> field is read by an
  \<open>elif\<close>, that is, only when \<open>"images"\<close> is absent or is not a list.
\<close>

fun image_urls :: "json \<Rightarrow> json list" where
  "image_urls (JDict data) =
     (case map_of data ''images'' of
        Some (JList imgs) \<Rightarrow> List.map_filter url_of imgs
      | other \<Rightarrow>
          (case map_of data ''data'' of
             Some (JList items) \<Rightarrow> List.map_filter url_of items
           | other' \<Rightarrow> []))"
| "image_urls other = []"

text \<open>Lines 137 to 140: the placeholder images.\<close>

definition seed_base :: "string \<Rightarrow> string" where
  "seed_base p = take 40 (replace_space p)"

definition picsum_url :: "string \<Rightarrow> int \<Rightarrow> string" where
  "picsum_url seed i =
     ''https://picsum.photos/seed/'' @ seed @ ''-'' @ str_int i @ ''/768/1024''"

definition mock_images :: "ImageGenRequest \<Rightarrow> string list" where
  "mock_images req = map (picsum_url (seed_base (prompt req))) [0..count req - 1]"

definition image_call :: "env \<Rightarrow> ImageGenRequest \<Rightarrow> http_call" where
  "image_call e req =
     \<lparr>call_url = KEYAI_BASE e @ ''/v1/images/generate'',
      call_json = JDict
        [(''model'', JStr ''nano-banana''),
         (''input'', JDict
            [(''prompt'', JStr (prompt req)),
             (''num_images'', JInt (count req)),
             (''style'', json_opt_str (style req)),
             (''references'', json_references (ImageGenRequest.references req))])],
      call_headers = auth_headers e,
      call_timeout = 60\<rparr>"

text \<open>
  Lines 104 to 133: the provider attempt. It yields \<open>provider\<close>, \<open>images\<close> and what was
  done to the outside. Every exception inside the \<open>try\<close> leaves both variables as they
  were initialised.
\<close>

definition image_attempt :: "env \<Rightarrow> ImageGenRequest \<Rightarrow> string \<times> json list \<times> event list" where
  "image_attempt e req =
     (if has_key e then
        (case post e (image_call e req) of
           Raises \<Rightarrow> (''mock'', [], [Posted (image_call e req)])
         | Response status body \<Rightarrow>
             if status = 200 then
               (case body of
                  None \<Rightarrow> (''mock'', [], [Posted (image_call e req), ParsedBody])
                | Some data \<Rightarrow>
                    if image_urls data \<noteq> [] then
                      (''key.ai:nano-banana'', slice_to (image_urls data) (count req),
                       [Posted (image_call e req), ParsedBody])
                    else (''mock'', [], [Posted (image_call e req), ParsedBody]))
             else (''mock'', [], [Posted (image_call e req)]))
      else (''mock'', [], []))"

definition image_job_id :: "env \<Rightarrow> string \<Rightarrow> string" where
  "image_job_id e p = ''job_img_'' @ str_int (\<bar>hash e p\<bar> mod 10000000)"

text \<open>The handler \<open>generate_images\<close>, lines 98 to 142.\<close>

definition generate_images ::
  "env \<Rightarrow> ImageGenRequest \<Rightarrow> (error + ImageGenResponse) \<times> event list" where
  "generate_images e req =
     (case image_attempt e req of
        (prov, imgs, trace) \<Rightarrow>
          (new_ImageGenResponse (num_str e) (image_job_id e (prompt req))
             (if imgs = [] then map JStr (mock_images req) else imgs) prov,
           trace))"

text \<open>
  The route \<open>POST /api/generate/images\<close>: the body is checked against
  \<open>ImageGenRequest\<close> first, and the handler runs only on a body that passes.
\<close>

definition api_generate_images ::
  "env \<Rightarrow> ImageGenRequest \<Rightarrow> (error + ImageGenResponse) \<times> event list" where
  "api_generate_images e req =
     (if ImageGenRequest_valid req then generate_images e req
      else (Inl RequestValidationError, []))"


section \<open>Video generation\<close>

definition placeholder_video :: string where
  "placeholder_video =
     ''https://interactive-examples.mdn.mozilla.net/media/cc0-videos/flower.mp4''"

text \<open>
  Lines 169 to 172: \<open>video_url\<close> for the parsed body \<open>data\<close>; it stays \<open>""\<close> when \<open>data\<close>
  is not a dict.
\<close>

fun video_url_of :: "json \<Rightarrow> json" where
  "video_url_of (JDict data) =
     (let v = py_or (dict_get data ''url'') (py_or (dict_get data ''video_url'') (JStr []))
      in if \<not> truthy v then
           (case map_of data ''data'' of
              Some (JDict inner) \<Rightarrow>
                py_or (dict_get inner ''url'') (py_or (dict_get inner ''video_url'') (JStr []))
            | other \<Rightarrow> v)
         else v)"
| "video_url_of other = JStr []"

definition video_call :: "env \<Rightarrow> VideoGenRequest \<Rightarrow> http_call" where
  "video_call e req =
     \<lparr>call_url = KEYAI_BASE e @ ''/v1/video/generate'',
      call_json = JDict
        [(''model'', JStr ''veo-3.1''),
         (''input'', JDict
            [(''script'', JStr (script req)),
             (''aspect_ratio'', JStr (aspect_ratio req)),
             (''duration'', JInt (duration_seconds req)),
             (''voice'', json_opt_str (voice req)),
             (''tone'', json_opt_str (tone req)),
             (''references'', json_references (VideoGenRequest.references req))])],
      call_headers = auth_headers e,
      call_timeout = 120\<rparr>"

text \<open>Lines 151 to 176: the provider attempt, yielding \<open>provider\<close> and \<open>video_url\<close>.\<close>

definition video_attempt :: "env \<Rightarrow> VideoGenRequest \<Rightarrow> string \<times> json \<times> event list" where
  "video_attempt e req =
     (if has_key e then
        (case post e (video_call e req) of
           Raises \<Rightarrow> (''mock'', JStr [], [Posted (video_call e req)])
         | Response status body \<Rightarrow>
             if status = 200 then
               (case body of
                  None \<Rightarrow> (''mock'', JStr [], [Posted (video_call e req), ParsedBody])
                | Some data \<Rightarrow>
                    (if truthy (video_url_of data) then ''key.ai:veo-3.1'' else ''mock'',
                     video_url_of data,
                     [Posted (video_call e req), ParsedBody]))
             else (''mock'', JStr [], [Posted (video_call e req)]))
      else (''mock'', JStr [], []))"

definition video_job_id :: "env \<Rightarrow> string \<Rightarrow> string" where
  "video_job_id e s = ''job_vid_'' @ str_int (\<bar>hash e s\<bar> mod 10000000)"

text \<open>The handler \<open>generate_video\<close>, lines 146 to 182.\<close>

definition generate_video ::
  "env \<Rightarrow> VideoGenRequest \<Rightarrow> (error + VideoGenResponse) \<times> event list" where
  "generate_video e req =
     (case video_attempt e req of
        (prov, v, trace) \<Rightarrow>
          (new_VideoGenResponse (num_str e) (video_job_id e (script req))
             (if \<not> truthy v then JStr placeholder_video else v) prov,
           trace))"

definition api_generate_video ::
  "env \<Rightarrow> VideoGenRequest \<Rightarrow> (error + VideoGenResponse) \<times> event list" where
  "api_generate_video e req =
     (if VideoGenRequest_valid req then generate_video e req
      else (Inl RequestValidationError, []))"


section \<open>Example inputs\<close>

text \<open>An environment without a credential, one with a credential whose provider always
  gives the reply \<open>r\<close>, and the two requests of the end-to-end scenarios.\<close>

definition example_env :: env where
  "example_env = \<lparr>KEYAI_API_KEY = None, KEYAI_BASE = ''https://api.key.ai'',
     post = (\<lambda>c. Raises), hash = (\<lambda>s. - 12345678), num_str = (\<lambda>v. None)\<rparr>"

definition keyed_env :: "reply \<Rightarrow> env" where
  "keyed_env r = \<lparr>KEYAI_API_KEY = Some ''k'', KEYAI_BASE = ''https://api.key.ai'',
     post = (\<lambda>c. r), hash = (\<lambda>s. - 12345678), num_str = (\<lambda>v. None)\<rparr>"

definition example_image_request :: ImageGenRequest where
  "example_image_request = \<lparr>prompt = ''a cat in space'', count = 3, style = None,
     ImageGenRequest.references = None\<rparr>"

definition example_video_request :: VideoGenRequest where
  "example_video_request = \<lparr>script = ''hello world'', aspect_ratio = ''9:16'',
     duration_seconds = 8, voice = None, tone = None, VideoGenRequest.references = None\<rparr>"


text \<open>
  Three provider bodies: \<open>{"images": [], "data": [{"url": "b"}]}\<close>,
  \<open>{"url": ["x"]}\<close> and \<open>{"images": [{"url": ["x"]}]}\<close>.
\<close>

definition shadowed_body :: json where
  "shadowed_body =
     JDict [(''images'', JList []), (''data'', JList [JDict [(''url'', JStr ''b'')]])]"

definition list_url_body :: json where
  "list_url_body = JDict [(''url'', JList [JStr ''x''])]"

definition list_url_images_body :: json where
  "list_url_images_body = JDict [(''images'', JList [JDict [(''url'', JList [JStr ''x''])]])]"


section \<open>Decimal strings\<close>

lemma digit_val_digit_char: "d < 10 \<Longrightarrow> digit_val (digit_char d) = d"
  by (auto simp: numeral_eq_Suc less_Suc_eq digit_val_def digit_char_def)

lemma decimal_val_snoc: "decimal_val (s @ [c]) = 10 * decimal_val s + digit_val c"
  by (simp add: decimal_val_def)

lemma decimal_val_str_nat: "decimal_val (str_nat n) = n"
proof (induction n rule: str_nat.induct)
  case (1 n)
  show ?case
  proof (cases "n < 10")
    case True
    then show ?thesis by (simp add: decimal_val_def digit_val_digit_char)
  next
    case False
    then have "decimal_val (str_nat n) =
        10 * decimal_val (str_nat (n div 10)) + digit_val (digit_char (n mod 10))"
      by (subst str_nat.simps) (simp add: decimal_val_snoc)
    also have "\<dots> = 10 * (n div 10) + n mod 10"
      using 1 False by (simp add: digit_val_digit_char)
    finally show ?thesis by simp
  qed
qed

lemma str_nat_inj: "str_nat m = str_nat n \<Longrightarrow> m = n"
  by (metis decimal_val_str_nat)

lemma str_int_inj_nonneg: "0 \<le> i \<Longrightarrow> 0 \<le> j \<Longrightarrow> str_int i = str_int j \<Longrightarrow> i = j"
proof -
  assume i: "0 \<le> i" and j: "0 \<le> j" and eq: "str_int i = str_int j"
  from i j eq have "str_nat (nat i) = str_nat (nat j)" by (simp add: str_int_def)
  then have "nat i = nat j" by (rule str_nat_inj)
  with i j show "i = j" by simp
qed


section \<open>The placeholder images\<close>

lemma picsum_url_inj: "0 \<le> i \<Longrightarrow> 0 \<le> j \<Longrightarrow> picsum_url s i = picsum_url s j \<Longrightarrow> i = j"
  by (simp add: picsum_url_def str_int_inj_nonneg)

lemma distinct_mock_images: "distinct (mock_images req)"
  unfolding mock_images_def
  by (rule iffD2[OF distinct_map]) (auto simp: inj_on_def intro: picsum_url_inj)

lemma length_mock_images: "length (mock_images req) = nat (count req)"
  by (simp add: mock_images_def)

lemma those_map_JStr: "those (map (str_field num \<circ> JStr) xs) = Some xs"
  by (induction xs) simp_all


section \<open>Without a credential\<close>

lemma image_attempt_no_key: "\<not> has_key e \<Longrightarrow> image_attempt e req = (''mock'', [], [])"
  by (simp add: image_attempt_def)

lemma generate_images_no_key:
  "\<not> has_key e \<Longrightarrow> generate_images e req =
     (Inr \<lparr>ImageGenResponse.job_id = image_job_id e (prompt req), images = mock_images req,
           ImageGenResponse.provider = ''mock''\<rparr>, [])"
  by (simp add: generate_images_def image_attempt_no_key new_ImageGenResponse_def those_map_JStr)

lemma video_attempt_no_key: "\<not> has_key e \<Longrightarrow> video_attempt e req = (''mock'', JStr [], [])"
  by (simp add: video_attempt_def)

lemma generate_video_no_key:
  "\<not> has_key e \<Longrightarrow> generate_video e req =
     (Inr \<lparr>VideoGenResponse.job_id = video_job_id e (script req), video_url = placeholder_video,
           VideoGenResponse.provider = ''mock''\<rparr>, [])"
  by (simp add: generate_video_def video_attempt_no_key new_VideoGenResponse_def)

lemma example_env_no_key: "\<not> has_key example_env"
  by (simp add: has_key_def example_env_def)

lemma keyed_env_has_key: "has_key (keyed_env r)"
  by (simp add: has_key_def keyed_env_def)

lemma example_image_request_valid: "ImageGenRequest_valid example_image_request"
  by (simp add: ImageGenRequest_valid_def example_image_request_def)

lemma example_video_request_valid: "VideoGenRequest_valid example_video_request"
  by (simp add: VideoGenRequest_valid_def example_video_request_def)

text \<open>
  Claim C2. For every valid count in [1,50] and every valid prompt, when no credential is
  configured, \<open>generate_images\<close> returns a result whose images list has exactly \<open>count\<close>
  entries and whose provider field is \<open>"mock"\<close>.
\<close>

theorem generate_images_no_credential:
  assumes "ImageGenRequest_valid req" and "\<not> has_key e"
  shows "\<exists>res. fst (generate_images e req) = Inr res
           \<and> int (length (images res)) = count req
           \<and> ImageGenResponse.provider res = ''mock''"
  using assms by (simp add: generate_images_no_key length_mock_images ImageGenRequest_valid_def)

theorem generate_images_no_credential_witness:
  "ImageGenRequest_valid example_image_request \<and> \<not> has_key example_env \<and>
   (\<exists>res. fst (generate_images example_env example_image_request) = Inr res
           \<and> int (length (images res)) = 3
           \<and> ImageGenResponse.provider res = ''mock'')"
  using generate_images_no_credential [OF example_image_request_valid example_env_no_key]
    example_image_request_valid example_env_no_key
  by (simp add: example_image_request_def)

text \<open>
  Claim C3. For every valid video request, when no credential is configured,
  \<open>generate_video\<close> returns a result whose \<open>video_url\<close> is the fixed placeholder constant
  and whose provider field is \<open>"mock"\<close>.
\<close>

theorem generate_video_no_credential:
  assumes "VideoGenRequest_valid req" and "\<not> has_key e"
  shows "\<exists>res. fst (generate_video e req) = Inr res
           \<and> video_url res =
               ''https://interactive-examples.mdn.mozilla.net/media/cc0-videos/flower.mp4''
           \<and> VideoGenResponse.provider res = ''mock''"
  using assms by (simp add: generate_video_no_key placeholder_video_def)

theorem generate_video_no_credential_witness:
  "VideoGenRequest_valid example_video_request \<and> \<not> has_key example_env \<and>
   (\<exists>res. fst (generate_video example_env example_video_request) = Inr res
           \<and> video_url res =
               ''https://interactive-examples.mdn.mozilla.net/media/cc0-videos/flower.mp4''
           \<and> VideoGenResponse.provider res = ''mock'')"
  using generate_video_no_credential [OF example_video_request_valid example_env_no_key]
    example_video_request_valid example_env_no_key
  by simp

text \<open>
  Claim C5. For every image request with \<open>count\<close> outside [1,50] or a prompt shorter than
  3 characters, the operation fails with a validation error surfaced to the caller, and
  neither a provider call nor fallback generation is performed: the outcome is the error
  and the list of outside effects is empty.
\<close>

theorem invalid_image_request_rejected:
  assumes "count req < 1 \<or> 50 < count req \<or> length (prompt req) < 3"
  shows "api_generate_images e req = (Inl RequestValidationError, [])"
  using assms by (auto simp: api_generate_images_def ImageGenRequest_valid_def)

theorem invalid_image_request_rejected_witness:
  "(count (example_image_request\<lparr>count := 51\<rparr>) < 1
     \<or> 50 < count (example_image_request\<lparr>count := 51\<rparr>)
     \<or> length (prompt (example_image_request\<lparr>count := 51\<rparr>)) < 3) \<and>
   api_generate_images (keyed_env Raises) (example_image_request\<lparr>count := 51\<rparr>)
     = (Inl RequestValidationError, [])"
  using invalid_image_request_rejected
    [of "example_image_request\<lparr>count := 51\<rparr>" "keyed_env Raises"]
  by simp

text \<open>
  Claim C7. For every prompt and count, two calls to \<open>generate_images\<close> with an identical
  prompt and identical count, both with no credential configured, return identical
  images sequences. The two calls may differ in everything else: the other request
  fields, the provider, the hash salt.
\<close>

theorem fallback_images_deterministic:
  assumes "\<not> has_key e1" and "\<not> has_key e2"
    and "prompt r1 = prompt r2" and "count r1 = count r2"
  shows "\<exists>res1 res2. fst (generate_images e1 r1) = Inr res1
           \<and> fst (generate_images e2 r2) = Inr res2
           \<and> images res1 = images res2"
  using assms by (simp add: generate_images_no_key mock_images_def)

theorem fallback_images_deterministic_witness:
  "\<not> has_key example_env \<and> \<not> has_key (example_env\<lparr>hash := (\<lambda>s. 7)\<rparr>)
   \<and> prompt example_image_request = prompt (example_image_request\<lparr>style := Some ''noir''\<rparr>)
   \<and> count example_image_request = count (example_image_request\<lparr>style := Some ''noir''\<rparr>)
   \<and> (\<exists>res1 res2. fst (generate_images example_env example_image_request) = Inr res1
           \<and> fst (generate_images (example_env\<lparr>hash := (\<lambda>s. 7)\<rparr>)
                   (example_image_request\<lparr>style := Some ''noir''\<rparr>)) = Inr res2
           \<and> images res1 = images res2)"
proof -
  have k2: "\<not> has_key (example_env\<lparr>hash := (\<lambda>s. 7)\<rparr>)"
    by (simp add: has_key_def example_env_def)
  have p: "prompt example_image_request = prompt (example_image_request\<lparr>style := Some ''noir''\<rparr>)"
    by simp
  have c: "count example_image_request = count (example_image_request\<lparr>style := Some ''noir''\<rparr>)"
    by simp
  from fallback_images_deterministic [OF example_env_no_key k2 p c] example_env_no_key k2 p c
  show ?thesis by blast
qed


section \<open>Evaluating the examples\<close>

lemma str_nat_digit: "n < 10 \<Longrightarrow> str_nat n = [digit_char n]"
  by simp

lemma str_nat_more: "10 \<le> n \<Longrightarrow> str_nat n = str_nat (n div 10) @ [digit_char (n mod 10)]"
  by (subst str_nat.simps) simp

lemma str_int_nonneg: "0 \<le> i \<Longrightarrow> str_int i = str_nat (nat i)"
  by (simp add: str_int_def)

lemma str_int_2345678: "str_int 2345678 = ''2345678''"
  by (simp add: str_int_nonneg str_nat_digit str_nat_more digit_char_def del: str_nat.simps)

lemma str_int_small: "str_int 0 = ''0''" "str_int 1 = ''1''" "str_int 2 = ''2''"
  by (simp_all add: str_int_nonneg str_nat_digit digit_char_def del: str_nat.simps)

lemma seed_base_example: "seed_base ''a cat in space'' = ''a+cat+in+space''"
  by (simp add: seed_base_def replace_space_def)

lemma mock_images_example:
  "mock_images example_image_request =
     [''https://picsum.photos/seed/a+cat+in+space-0/768/1024'',
      ''https://picsum.photos/seed/a+cat+in+space-1/768/1024'',
      ''https://picsum.photos/seed/a+cat+in+space-2/768/1024'']"
  by (simp add: mock_images_def example_image_request_def seed_base_example upto_rec1
      picsum_url_def str_int_small)

lemma post_keyed_env: "post (keyed_env r) c = r"
  by (simp add: keyed_env_def)

lemma image_job_id_keyed_env: "image_job_id (keyed_env r) p = ''job_img_2345678''"
  by (simp add: image_job_id_def keyed_env_def str_int_2345678)

lemma video_job_id_keyed_env: "video_job_id (keyed_env r) p = ''job_vid_2345678''"
  by (simp add: video_job_id_def keyed_env_def str_int_2345678)

lemma has_key_num_str_update: "has_key (e\<lparr>num_str := f\<rparr>) = has_key e"
  by (simp add: has_key_def)


section \<open>Reading the provider's reply\<close>

text \<open>Each recognised shape alone is recovered.\<close>

lemma image_urls_images_shape:
  "image_urls (JDict [(''images'', JList [JDict [(''url'', JStr ''a'')]])]) = [JStr ''a'']"
  by (simp add: List.map_filter_def dict_get_def)

lemma image_urls_data_shape:
  "image_urls (JDict [(''data'', JList [JDict [(''url'', JStr ''b'')]])]) = [JStr ''b'']"
  by (simp add: List.map_filter_def dict_get_def)

lemma image_urls_images_list:
  "map_of data ''images'' = Some (JList imgs) \<Longrightarrow>
     image_urls (JDict data) = List.map_filter url_of imgs"
  by simp

lemma image_urls_data_list:
  "map_of data ''images'' = None \<Longrightarrow> map_of data ''data'' = Some (JList items) \<Longrightarrow>
     image_urls (JDict data) = List.map_filter url_of items"
  by simp

lemma image_urls_shadowed_body: "image_urls shadowed_body = []"
  by (simp add: shadowed_body_def List.map_filter_def)

lemma image_attempt_shadowed_body:
  "image_attempt (keyed_env (Response 200 (Some shadowed_body))) req =
     (''mock'', [],
      [Posted (image_call (keyed_env (Response 200 (Some shadowed_body))) req), ParsedBody])"
  by (simp add: image_attempt_def keyed_env_has_key post_keyed_env image_urls_shadowed_body)

text \<open>
  Claim C1. Image extraction tries the recognised shapes in order until one yields at
  least one non-empty URL; in particular, for a response where the \<open>"images"\<close> shape is
  present but yields no URL while the \<open>"data"\<close> shape yields one, extraction returns the
  URLs from \<open>"data"\<close>. The code does not: on \<open>{"images": [], "data": [{"url": "b"}]}\<close>
  the \<open>elif\<close> is never reached, no URL is extracted, and the caller gets the
  placeholders tagged \<open>"mock"\<close> although the provider delivered an image.
\<close>

theorem images_list_shadows_data:
  "image_urls shadowed_body = []
   \<and> fst (generate_images (keyed_env (Response 200 (Some shadowed_body))) example_image_request)
       = Inr \<lparr>ImageGenResponse.job_id = ''job_img_2345678'',
              images = [''https://picsum.photos/seed/a+cat+in+space-0/768/1024'',
                        ''https://picsum.photos/seed/a+cat+in+space-1/768/1024'',
                        ''https://picsum.photos/seed/a+cat+in+space-2/768/1024''],
              ImageGenResponse.provider = ''mock''\<rparr>"
  by (simp add: image_urls_shadowed_body generate_images_def image_attempt_shadowed_body
      new_ImageGenResponse_def those_map_JStr image_job_id_keyed_env mock_images_example)

lemma video_url_of_list_url_body: "video_url_of list_url_body = JList [JStr ''x'']"
  by (simp add: list_url_body_def py_or_def dict_get_def)

lemma image_urls_list_url_images_body: "image_urls list_url_images_body = [JList [JStr ''x'']]"
  by (simp add: list_url_images_body_def List.map_filter_def dict_get_def)

lemma video_attempt_list_url_body:
  "fst (snd (video_attempt
       ((keyed_env (Response 200 (Some list_url_body)))\<lparr>num_str := num\<rparr>) req))
     = JList [JStr ''x'']"
  by (simp add: video_attempt_def has_key_num_str_update keyed_env_has_key post_keyed_env
      video_url_of_list_url_body)

lemma image_attempt_list_url_images_body:
  "fst (snd (image_attempt
       ((keyed_env (Response 200 (Some list_url_images_body)))\<lparr>num_str := num\<rparr>)
       example_image_request)) = [JList [JStr ''x'']]"
  by (simp add: image_attempt_def has_key_num_str_update keyed_env_has_key post_keyed_env
      image_urls_list_url_images_body slice_to_def example_image_request_def)

text \<open>
  Claim C4. For every valid request, whatever the provider configuration and whatever raw
  response the provider returns, the operation returns a fully populated result. The code
  does not: a reply with status 200 whose \<open>"url"\<close> is a non-empty list is truthy, so it is
  taken as the URL, and the response model with its \<open>str\<close> field refuses it outside the
  \<open>try\<close>. The handler raises instead of falling back, whatever pydantic makes of numbers.
\<close>

theorem non_string_url_escapes_fallback:
  "(\<forall>num. fst (generate_video
                 ((keyed_env (Response 200 (Some list_url_body)))\<lparr>num_str := num\<rparr>)
                 example_video_request) = Inl ValidationError)
   \<and> (\<forall>num. fst (generate_images
                 ((keyed_env (Response 200 (Some list_url_images_body)))\<lparr>num_str := num\<rparr>)
                 example_image_request) = Inl ValidationError)"
proof (intro conjI allI)
  fix num
  show "fst (generate_video
               ((keyed_env (Response 200 (Some list_url_body)))\<lparr>num_str := num\<rparr>)
               example_video_request) = Inl ValidationError"
    using video_attempt_list_url_body [of num example_video_request]
    by (auto simp: generate_video_def new_VideoGenResponse_def split: prod.splits)
next
  fix num
  show "fst (generate_images
               ((keyed_env (Response 200 (Some list_url_images_body)))\<lparr>num_str := num\<rparr>)
               example_image_request) = Inl ValidationError"
    using image_attempt_list_url_images_body [of num]
    by (auto simp: generate_images_def new_ImageGenResponse_def split: prod.splits)
qed


section \<open>A reply that is not 200\<close>

text \<open>
  Claim C10. When a credential is configured and the provider replies with any status
  code other than exactly 200 (201 included), the response body is never parsed: both
  handlers return the fallback output with provider \<open>"mock"\<close>, and the only outside effect
  is the one call that was posted.
\<close>

theorem non_200_reply_falls_back:
  assumes "has_key e" and "status \<noteq> 200"
  shows "(post e (image_call e ireq) = Response status body \<longrightarrow>
            generate_images e ireq =
              (Inr \<lparr>ImageGenResponse.job_id = image_job_id e (prompt ireq),
                    images = mock_images ireq, ImageGenResponse.provider = ''mock''\<rparr>,
               [Posted (image_call e ireq)]))
       \<and> (post e (video_call e vreq) = Response status body \<longrightarrow>
            generate_video e vreq =
              (Inr \<lparr>VideoGenResponse.job_id = video_job_id e (script vreq),
                    video_url = placeholder_video, VideoGenResponse.provider = ''mock''\<rparr>,
               [Posted (video_call e vreq)]))"
proof (intro conjI impI)
  assume p: "post e (image_call e ireq) = Response status body"
  with assms have "image_attempt e ireq = (''mock'', [], [Posted (image_call e ireq)])"
    by (simp add: image_attempt_def)
  then show "generate_images e ireq =
      (Inr \<lparr>ImageGenResponse.job_id = image_job_id e (prompt ireq),
            images = mock_images ireq, ImageGenResponse.provider = ''mock''\<rparr>,
       [Posted (image_call e ireq)])"
    by (simp add: generate_images_def new_ImageGenResponse_def those_map_JStr)
next
  assume p: "post e (video_call e vreq) = Response status body"
  with assms have "video_attempt e vreq = (''mock'', JStr [], [Posted (video_call e vreq)])"
    by (simp add: video_attempt_def)
  then show "generate_video e vreq =
      (Inr \<lparr>VideoGenResponse.job_id = video_job_id e (script vreq),
            video_url = placeholder_video, VideoGenResponse.provider = ''mock''\<rparr>,
       [Posted (video_call e vreq)])"
    by (simp add: generate_video_def new_VideoGenResponse_def)
qed

theorem non_200_reply_falls_back_witness:
  "has_key (keyed_env (Response 201 None)) \<and> (201::int) \<noteq> 200
   \<and> post (keyed_env (Response 201 None))
        (image_call (keyed_env (Response 201 None)) example_image_request) = Response 201 None
   \<and> post (keyed_env (Response 201 None))
        (video_call (keyed_env (Response 201 None)) example_video_request) = Response 201 None
   \<and> generate_images (keyed_env (Response 201 None)) example_image_request =
        (Inr \<lparr>ImageGenResponse.job_id =
                image_job_id (keyed_env (Response 201 None)) (prompt example_image_request),
              images = mock_images example_image_request,
              ImageGenResponse.provider = ''mock''\<rparr>,
         [Posted (image_call (keyed_env (Response 201 None)) example_image_request)])
   \<and> generate_video (keyed_env (Response 201 None)) example_video_request =
        (Inr \<lparr>VideoGenResponse.job_id =
                video_job_id (keyed_env (Response 201 None)) (script example_video_request),
              video_url = placeholder_video, VideoGenResponse.provider = ''mock''\<rparr>,
         [Posted (video_call (keyed_env (Response 201 None)) example_video_request)])"
proof -
  have k: "has_key (keyed_env (Response 201 None))" by (rule keyed_env_has_key)
  have s: "(201::int) \<noteq> 200" by simp
  note c = non_200_reply_falls_back
    [OF k s, of example_image_request None example_video_request]
  from c have i: "generate_images (keyed_env (Response 201 None)) example_image_request =
        (Inr \<lparr>ImageGenResponse.job_id =
                image_job_id (keyed_env (Response 201 None)) (prompt example_image_request),
              images = mock_images example_image_request,
              ImageGenResponse.provider = ''mock''\<rparr>,
         [Posted (image_call (keyed_env (Response 201 None)) example_image_request)])"
    using post_keyed_env by blast
  from c have v: "generate_video (keyed_env (Response 201 None)) example_video_request =
        (Inr \<lparr>VideoGenResponse.job_id =
                video_job_id (keyed_env (Response 201 None)) (script example_video_request),
              video_url = placeholder_video, VideoGenResponse.provider = ''mock''\<rparr>,
         [Posted (video_call (keyed_env (Response 201 None)) example_video_request)])"
    using post_keyed_env by blast
  from k s i v post_keyed_env show ?thesis by blast
qed

end
